theory Spec2Isabelle
  imports Main "HOL-Library.Word" "HOL-Library.Multiset" "HOL-Library.Product_Lexorder"
begin

section \<open>Numeric types and constants of \<^verbatim>\<open>structures/typedefs.h\<close>\<close>

text \<open>
  \<^verbatim>\<open>solution_indicators.h\<close> includes \<^verbatim>\<open>structures/typedefs.h\<close>, which declares
  \<^verbatim>\<open>Priority\<close>, \<^verbatim>\<open>Cost\<close>, \<^verbatim>\<open>Duration\<close>, \<^verbatim>\<open>Distance\<close>, \<^verbatim>\<open>Index\<close>, \<^verbatim>\<open>Eval\<close>
  and the two scaling factors; that header is not among the sources. The widths
  below are the ones of VROOM's header: \<^verbatim>\<open>Priority\<close> is \<^verbatim>\<open>uint32_t\<close>, the three
  components of \<^verbatim>\<open>Eval\<close> are \<^verbatim>\<open>int64_t\<close>. The plain \<^verbatim>\<open>unsigned\<close> of the two counters
  is 32 bits wide. Unsigned fields are compared with the order of words (\<open><\<close>),
  signed ones with the two's complement order (\<open><s\<close>). Arithmetic on words wraps
  around.
\<close>

type_synonym Priority = "32 word"
type_synonym Cost = "64 word"
type_synonym Duration = "64 word"
type_synonym Distance = "64 word"

text \<open>
  Modelled from the spec: \<^verbatim>\<open>Eval\<close> is a triple (cost, duration, distance); its
  default value is the zero triple and \<^verbatim>\<open>+=\<close> adds each component independently.
\<close>

record Eval =
  cost :: Cost
  duration :: Duration
  distance :: Distance

definition Eval_zero :: Eval where
  "Eval_zero = \<lparr>cost = 0, duration = 0, distance = 0\<rparr>"

definition Eval_add :: "Eval \<Rightarrow> Eval \<Rightarrow> Eval" where
  "Eval_add e f =
     \<lparr>cost = cost e + cost f,
      duration = duration e + duration f,
      distance = distance e + distance f\<rparr>"

text \<open>
  Modelled from the spec: the two scaling factors. The comment beside their use in
  \<^verbatim>\<open>operator<\<close> gives \<^verbatim>\<open>DURATION_FACTOR * COST_FACTOR = 100 * 3600 = 360,000\<close>.
\<close>

definition DURATION_FACTOR :: "64 word" where
  "DURATION_FACTOR = 100"

definition COST_FACTOR :: "64 word" where
  "COST_FACTOR = 3600"

section \<open>\<^verbatim>\<open>struct SolutionIndicators\<close>\<close>

record SolutionIndicators =
  priority_sum :: Priority
  assigned :: "32 word"
  eval :: Eval
  used_vehicles :: "32 word"
  routes_hash :: "32 word"

text \<open>
  The defaulted constructor runs the member initialisers: \<^verbatim>\<open>priority_sum{0}\<close>,
  \<^verbatim>\<open>assigned{0}\<close>, \<^verbatim>\<open>used_vehicles{0}\<close> and \<^verbatim>\<open>Eval\<close>'s own default. \<^verbatim>\<open>routes_hash\<close> has
  no initialiser: its content \<open>h\<close> is whatever the storage holds, so it is an argument
  of the model.
\<close>

definition SolutionIndicators_default :: "32 word \<Rightarrow> SolutionIndicators" where
  "SolutionIndicators_default h =
     \<lparr>priority_sum = 0, assigned = 0, eval = Eval_zero, used_vehicles = 0,
      routes_hash = h\<rparr>"

section \<open>The aggregating constructor\<close>

text \<open>
  The constructor is a template over the route type and calls into
  \<^verbatim>\<open>utils/helpers.h\<close>, which is not among the sources. Everything it consumes from
  outside is a field of \<open>collaborators\<close>: the two functions of the cost model, the
  hash of a vector, and the three capabilities of a route (\<^verbatim>\<open>r.route\<close>, \<^verbatim>\<open>r.empty()\<close>,
  \<^verbatim>\<open>std::size(r)\<close>). \<open>'rank\<close> is the type \<^verbatim>\<open>Index\<close> of \<^verbatim>\<open>v_rank\<close>; the constructor
  only needs its \<open>0\<close> and \<open>+ 1\<close>.
\<close>

record ('input, 'job, 'rank, 'route) collaborators =
  priority_sum_for_route :: "'input \<Rightarrow> 'job list \<Rightarrow> Priority"
  route_eval_for_vehicle :: "'input \<Rightarrow> 'rank \<Rightarrow> 'job list \<Rightarrow> Eval"
  get_vector_hash :: "32 word list \<Rightarrow> 32 word"
  route :: "'route \<Rightarrow> 'job list"
  empty_Route :: "'route \<Rightarrow> bool"
  size_Route :: "'route \<Rightarrow> nat"

text \<open>
  One iteration of \<^verbatim>\<open>for (const auto& r : sol)\<close> on the pair of the object under
  construction and \<^verbatim>\<open>v_rank\<close>. \<^verbatim>\<open>assigned += r.route.size()\<close> adds a \<^verbatim>\<open>size_t\<close> to an
  \<^verbatim>\<open>unsigned\<close>: the sum is kept modulo \<open>2 ^ 32\<close>.
\<close>

definition loop_body ::
  "('input, 'job, 'rank::semiring_1, 'route) collaborators \<Rightarrow> 'input \<Rightarrow>
   SolutionIndicators \<times> 'rank \<Rightarrow> 'route \<Rightarrow> SolutionIndicators \<times> 'rank" where
  "loop_body C input acc r =
     (let (s, v_rank) = acc;
          s = s\<lparr>priority_sum := priority_sum s + priority_sum_for_route C input (route C r)\<rparr>;
          s = s\<lparr>assigned := assigned s + of_nat (length (route C r))\<rparr>;
          s = s\<lparr>eval := Eval_add (eval s) (route_eval_for_vehicle C input v_rank (route C r))\<rparr>;
          v_rank = v_rank + 1;
          s = (if \<not> empty_Route C r then s\<lparr>used_vehicles := used_vehicles s + 1\<rparr> else s)
      in (s, v_rank))"

text \<open>
  The constructor: the delegated default construction, the loop, then the sizes of
  all routes (each narrowed to \<^verbatim>\<open>uint32_t\<close>), sorted, hashed and stored. The hash field
  is assigned before anything reads it, so the content the delegated construction
  leaves there is immaterial; the model starts from 0.
\<close>

definition SolutionIndicators_ctor ::
  "('input, 'job, 'rank::semiring_1, 'route) collaborators \<Rightarrow> 'input \<Rightarrow> 'route list \<Rightarrow>
   SolutionIndicators" where
  "SolutionIndicators_ctor C input sol =
     (let (s, v_rank) = foldl (loop_body C input) (SolutionIndicators_default 0, 0) sol;
          routes_sizes = map (\<lambda>r. of_nat (size_Route C r)) sol;
          routes_sizes = sort routes_sizes
      in s\<lparr>routes_hash := get_vector_hash C routes_sizes\<rparr>)"

section \<open>The comparator \<^verbatim>\<open>operator<\<close>\<close>

text \<open>
  \<^verbatim>\<open>std::tie(...) < std::tie(...)\<close> compares two tuples lexicographically: element by
  element, the first element that is smaller on one side decides. Each element is
  given as the pair of its two comparisons \<open>(l < r, r < l)\<close>, taken at the element's
  own type.
\<close>

fun tuple_less :: "(bool \<times> bool) list \<Rightarrow> bool" where
  "tuple_less [] = False"
| "tuple_less ((lt, gt) # rest) =
     (if lt then True else if gt then False else tuple_less rest)"

definition cmp_u :: "'a::len word \<Rightarrow> 'a word \<Rightarrow> bool \<times> bool" where
  "cmp_u l r = (l < r, r < l)"

definition cmp_s :: "'a::len word \<Rightarrow> 'a word \<Rightarrow> bool \<times> bool" where
  "cmp_s l r = (l <s r, r <s l)"

definition PRIORITY_SCALE :: "64 word" where
  "PRIORITY_SCALE = DURATION_FACTOR * COST_FACTOR"

definition using_priorities :: "SolutionIndicators \<Rightarrow> SolutionIndicators \<Rightarrow> bool" where
  "using_priorities lhs rhs \<longleftrightarrow> priority_sum lhs > 0 \<or> priority_sum rhs > 0"

text \<open>The profit of one operand: \<^verbatim>\<open>static_cast<int64_t>(priority_sum) * PRIORITY_SCALE - eval.cost\<close>.\<close>

definition profit :: "SolutionIndicators \<Rightarrow> 64 word" where
  "profit x = ucast (priority_sum x) * PRIORITY_SCALE - cost (eval x)"

text \<open>The branch under \<^verbatim>\<open>if (using_priorities)\<close>.\<close>

definition priority_branch :: "SolutionIndicators \<Rightarrow> SolutionIndicators \<Rightarrow> bool" where
  "priority_branch lhs rhs =
     (let lhs_profit = profit lhs;
          rhs_profit = profit rhs
      in if lhs_profit \<noteq> rhs_profit then rhs_profit <s lhs_profit
         else tuple_less
           [cmp_u (assigned rhs) (assigned lhs),
            cmp_u (used_vehicles lhs) (used_vehicles rhs),
            cmp_s (duration (eval lhs)) (duration (eval rhs)),
            cmp_s (distance (eval lhs)) (distance (eval rhs)),
            cmp_u (routes_hash lhs) (routes_hash rhs)])"

text \<open>The final \<^verbatim>\<open>return\<close>: the default lexicographic comparison.\<close>

definition lexicographic_branch :: "SolutionIndicators \<Rightarrow> SolutionIndicators \<Rightarrow> bool" where
  "lexicographic_branch lhs rhs =
     tuple_less
       [cmp_u (assigned rhs) (assigned lhs),
        cmp_s (cost (eval lhs)) (cost (eval rhs)),
        cmp_u (used_vehicles lhs) (used_vehicles rhs),
        cmp_s (duration (eval lhs)) (duration (eval rhs)),
        cmp_s (distance (eval lhs)) (distance (eval rhs)),
        cmp_u (routes_hash lhs) (routes_hash rhs)]"

text \<open>\<^verbatim>\<open>operator<\<close>; the specification calls it \<open>betterThan\<close>.\<close>

definition operator_less :: "SolutionIndicators \<Rightarrow> SolutionIndicators \<Rightarrow> bool" where
  "operator_less lhs rhs =
     (if using_priorities lhs rhs then priority_branch lhs rhs
      else lexicographic_branch lhs rhs)"

abbreviation betterThan :: "SolutionIndicators \<Rightarrow> SolutionIndicators \<Rightarrow> bool" where
  "betterThan \<equiv> operator_less"

section \<open>Sort keys of the two branches\<close>

text \<open>
  Each branch is the strict lexicographic order of a key that depends on one operand
  only. Keys are tuples of integers, ordered lexicographically.
\<close>

definition priority_key :: "SolutionIndicators \<Rightarrow> int \<times> int \<times> int \<times> int \<times> int \<times> int" where
  "priority_key x =
     (- sint (profit x), - uint (assigned x), uint (used_vehicles x),
      sint (duration (eval x)), sint (distance (eval x)), uint (routes_hash x))"

definition lexicographic_key :: "SolutionIndicators \<Rightarrow> int \<times> int \<times> int \<times> int \<times> int \<times> int" where
  "lexicographic_key x =
     (- uint (assigned x), sint (cost (eval x)), uint (used_vehicles x),
      sint (duration (eval x)), sint (distance (eval x)), uint (routes_hash x))"

section \<open>The two objectives as the specification words them\<close>

text \<open>
  The profit \<open>priority_sum * SCALE - eval.cost\<close> with \<open>SCALE = 360000\<close>, as an integer
  reduced to the signed 64-bit range.
\<close>

definition spec_profit :: "SolutionIndicators \<Rightarrow> int" where
  "spec_profit x =
     signed_take_bit 63 (uint (priority_sum x) * 360000 - sint (cost (eval x)))"

text \<open>
  Priority mode: the profits decide when they differ; otherwise more assigned jobs,
  fewer used vehicles, lower duration, lower distance, lower hash, in this order.
\<close>

definition spec_priority_better :: "SolutionIndicators \<Rightarrow> SolutionIndicators \<Rightarrow> bool" where
  "spec_priority_better a b =
     (if spec_profit a \<noteq> spec_profit b then spec_profit a > spec_profit b
      else if unat (assigned a) \<noteq> unat (assigned b)
        then unat (assigned a) > unat (assigned b)
      else if unat (used_vehicles a) \<noteq> unat (used_vehicles b)
        then unat (used_vehicles a) < unat (used_vehicles b)
      else if sint (duration (eval a)) \<noteq> sint (duration (eval b))
        then sint (duration (eval a)) < sint (duration (eval b))
      else if sint (distance (eval a)) \<noteq> sint (distance (eval b))
        then sint (distance (eval a)) < sint (distance (eval b))
      else unat (routes_hash a) < unat (routes_hash b))"

text \<open>
  Lexicographic mode: more assigned jobs, lower cost, fewer used vehicles, lower
  duration, lower distance, lower hash, in this order.
\<close>

definition spec_lexicographic_better ::
  "SolutionIndicators \<Rightarrow> SolutionIndicators \<Rightarrow> bool" where
  "spec_lexicographic_better a b =
     (if unat (assigned a) \<noteq> unat (assigned b)
        then unat (assigned a) > unat (assigned b)
      else if sint (cost (eval a)) \<noteq> sint (cost (eval b))
        then sint (cost (eval a)) < sint (cost (eval b))
      else if unat (used_vehicles a) \<noteq> unat (used_vehicles b)
        then unat (used_vehicles a) < unat (used_vehicles b)
      else if sint (duration (eval a)) \<noteq> sint (duration (eval b))
        then sint (duration (eval a)) < sint (duration (eval b))
      else if sint (distance (eval a)) \<noteq> sint (distance (eval b))
        then sint (distance (eval a)) < sint (distance (eval b))
      else unat (routes_hash a) < unat (routes_hash b))"

section \<open>A concrete set of collaborators\<close>

text \<open>
  Modelled from the spec: \<^verbatim>\<open>priority_sum_for_route\<close>, \<^verbatim>\<open>route_eval_for_vehicle\<close> and
  \<^verbatim>\<open>get_vector_hash\<close> live in \<^verbatim>\<open>utils/helpers.h\<close>, the route types elsewhere; none is
  among the sources. This instance serves to run the constructor on concrete routes:
  the instance is the priority of each job, a route is the list of its jobs, the
  priority of a route is the sum of its jobs' priorities, and the hash folds the
  sizes through a multiplicative 32-bit mix from a fixed seed. The theorems on the
  constructor hold for every set of collaborators, not only this one.
\<close>

definition example_collaborators :: "(nat \<Rightarrow> Priority, nat, 16 word, nat list) collaborators" where
  "example_collaborators =
     \<lparr>priority_sum_for_route = (\<lambda>input r. sum_list (map input r)),
      route_eval_for_vehicle = (\<lambda>input v_rank r.
         \<lparr>cost = 10 * ucast v_rank + of_nat (length r),
          duration = of_nat (length r), distance = 3 * of_nat (length r)\<rparr>),
      get_vector_hash = foldl (\<lambda>h x. (xor h x) * 16777619) 2166136261,
      route = (\<lambda>r. r),
      empty_Route = (\<lambda>r. r = []),
      size_Route = length\<rparr>"

section \<open>Properties of the comparator\<close>

subsection \<open>Auxiliary facts\<close>

lemma prod_less_lin:
  "(a, b) < (c, d) \<longleftrightarrow> a < c \<or> a = c \<and> b < d"
  for a c :: "'a::linorder" and b d :: "'b::ord"
  by (auto simp add: less_prod_def)

lemma tuple_less_cmp_u:
  "tuple_less (cmp_u l r # rest) \<longleftrightarrow>
     uint l < uint r \<or> uint l = uint r \<and> tuple_less rest"
  by (auto simp add: cmp_u_def word_less_def)

lemma tuple_less_cmp_s:
  "tuple_less (cmp_s l r # rest) \<longleftrightarrow>
     sint l < sint r \<or> sint l = sint r \<and> tuple_less rest"
  by (auto simp add: cmp_s_def word_sless_alt)

lemma priority_branch_key: "priority_branch a b \<longleftrightarrow> priority_key a < priority_key b"
proof (cases "profit a = profit b")
  case True
  then show ?thesis
    by (simp del: less_prod_simp add: priority_branch_def priority_key_def
        prod_less_lin tuple_less_cmp_u tuple_less_cmp_s
        eq_commute [of "uint (assigned b)" "uint (assigned a)"])
next
  case False
  then have "sint (profit a) \<noteq> sint (profit b)"
    by (auto intro: signed_word_eqI)
  with False show ?thesis
    by (auto simp add: priority_branch_def priority_key_def less_prod_def word_sless_alt)
qed

lemma lexicographic_branch_key:
  "lexicographic_branch a b \<longleftrightarrow> lexicographic_key a < lexicographic_key b"
  by (simp del: less_prod_simp add: lexicographic_branch_def lexicographic_key_def
      prod_less_lin tuple_less_cmp_u tuple_less_cmp_s
      eq_commute [of "uint (assigned b)" "uint (assigned a)"])

lemma using_priorities_commute: "using_priorities a b = using_priorities b a"
  by (auto simp add: using_priorities_def)

lemma PRIORITY_SCALE_value: "PRIORITY_SCALE = 360000"
  by (simp add: PRIORITY_SCALE_def DURATION_FACTOR_def COST_FACTOR_def)

lemma profit_of_int:
  "profit x = word_of_int (uint (priority_sum x) * 360000 - sint (cost (eval x)))"
  by (simp add: profit_def PRIORITY_SCALE_value)

lemma sint_profit: "sint (profit x) = spec_profit x"
  unfolding profit_of_int spec_profit_def sint_sbintrunc' by simp

text \<open>no overflow when cost is non-negative\<close>
lemma spec_profit_exact:
  assumes "0 \<le> sint (cost (eval x))"
  shows "spec_profit x = uint (priority_sum x) * 360000 - sint (cost (eval x))"
proof -
  have p: "uint (priority_sum x) < 4294967296"
    using uint_bounded [of "priority_sum x"] by simp
  have p0: "0 \<le> uint (priority_sum x)" by simp
  have c: "sint (cost (eval x)) < 9223372036854775808"
    using sint_lt [of "cost (eval x)"] by simp
  have "- 9223372036854775808 \<le> uint (priority_sum x) * 360000 - sint (cost (eval x))"
    and "uint (priority_sum x) * 360000 - sint (cost (eval x)) < 9223372036854775808"
    using assms c p0 p by linarith+
  then show ?thesis
    by (simp add: spec_profit_def signed_take_bit_int_eq_self_iff)
qed

lemma tuple_less_cmp_u_if:
  "tuple_less (cmp_u l r # rest) =
     (if unat l \<noteq> unat r then unat l < unat r else tuple_less rest)"
  by (auto simp add: cmp_u_def word_less_nat_alt)

lemma tuple_less_cmp_s_if:
  "tuple_less (cmp_s l r # rest) =
     (if sint l \<noteq> sint r then sint l < sint r else tuple_less rest)"
  by (auto simp add: cmp_s_def word_sless_alt)

lemma priority_branch_spec: "priority_branch a b = spec_priority_better a b"
proof (cases "profit a = profit b")
  case True
  then have "spec_profit a = spec_profit b"
    by (simp flip: sint_profit)
  with True show ?thesis
    by (simp add: priority_branch_def spec_priority_better_def
        tuple_less_cmp_u_if tuple_less_cmp_s_if
        eq_commute [of "unat (assigned b)" "unat (assigned a)"])
next
  case False
  then have "spec_profit a \<noteq> spec_profit b"
    by (auto simp flip: sint_profit intro: signed_word_eqI)
  with False show ?thesis
    by (simp add: priority_branch_def spec_priority_better_def word_sless_alt sint_profit)
qed

lemma lexicographic_branch_spec: "lexicographic_branch a b = spec_lexicographic_better a b"
  by (simp add: lexicographic_branch_def spec_lexicographic_better_def
        tuple_less_cmp_u_if tuple_less_cmp_s_if
        eq_commute [of "unat (assigned b)" "unat (assigned a)"])

lemmas operator_less_eval =
  operator_less_def using_priorities_def priority_branch_def lexicographic_branch_def
  profit_def PRIORITY_SCALE_value cmp_u_def cmp_s_def Let_def

subsection \<open>The constructor loop\<close>

lemma loop_body_fields:
  "snd (loop_body C input acc r) = snd acc + 1"
  "priority_sum (fst (loop_body C input acc r)) =
     priority_sum (fst acc) + priority_sum_for_route C input (route C r)"
  "assigned (fst (loop_body C input acc r)) =
     assigned (fst acc) + of_nat (length (route C r))"
  "eval (fst (loop_body C input acc r)) =
     Eval_add (eval (fst acc)) (route_eval_for_vehicle C input (snd acc) (route C r))"
  "used_vehicles (fst (loop_body C input acc r)) =
     used_vehicles (fst acc) + (if empty_Route C r then 0 else 1)"
  "routes_hash (fst (loop_body C input acc r)) = routes_hash (fst acc)"
  by (simp_all add: loop_body_def split_beta Let_def)

lemma loop_rank:
  "snd (foldl (loop_body C input) (s0, 0) sol) = of_nat (length sol)"
  by (induction sol rule: rev_induct) (simp_all add: loop_body_fields add.commute)

lemma loop_priority_sum:
  "priority_sum (fst (foldl (loop_body C input) (s0, k) sol)) =
     priority_sum s0 + (\<Sum>r\<leftarrow>sol. priority_sum_for_route C input (route C r))"
  by (induction sol rule: rev_induct) (simp_all add: loop_body_fields)

lemma loop_assigned:
  "assigned (fst (foldl (loop_body C input) (s0, k) sol)) =
     assigned s0 + of_nat (\<Sum>r\<leftarrow>sol. length (route C r))"
  by (induction sol rule: rev_induct) (simp_all add: loop_body_fields)

lemma loop_used_vehicles:
  "used_vehicles (fst (foldl (loop_body C input) (s0, k) sol)) =
     used_vehicles s0 + of_nat (length (filter (\<lambda>r. \<not> empty_Route C r) sol))"
  by (induction sol rule: rev_induct) (simp_all add: loop_body_fields)

lemma loop_eval:
  "eval (fst (foldl (loop_body C input) (s0, 0) sol)) =
     foldl Eval_add (eval s0)
       (map (\<lambda>(i, r). route_eval_for_vehicle C input (of_nat i) (route C r))
         (enumerate 0 sol))"
  by (induction sol rule: rev_induct)
    (simp_all add: loop_body_fields loop_rank enumerate_eq_zip)

lemma foldl_Eval_add_cost:
  "cost (foldl Eval_add e es) = cost e + sum_list (map cost es)"
  by (induction es arbitrary: e) (simp_all add: Eval_add_def)

lemma foldl_Eval_add_duration:
  "duration (foldl Eval_add e es) = duration e + sum_list (map duration es)"
  by (induction es arbitrary: e) (simp_all add: Eval_add_def)

lemma foldl_Eval_add_distance:
  "distance (foldl Eval_add e es) = distance e + sum_list (map distance es)"
  by (induction es arbitrary: e) (simp_all add: Eval_add_def)

lemma sort_mset_cong: "mset xs = mset ys \<Longrightarrow> sort xs = sort ys" for xs :: "'a::linorder list"
  by (rule properties_for_sort) simp_all

section \<open>The claims\<close>

text \<open>
  C1. The comparator is asymmetric and irreflexive: \<open>operator_less a b\<close> and
  \<open>operator_less b a\<close> never both hold, and \<open>operator_less a a\<close> is false. The same
  holds for each of the two branches taken alone, the priority one and the
  lexicographic one.
\<close>

theorem operator_less_asymmetric:
  "\<not> (operator_less a b \<and> operator_less b a) \<and> \<not> operator_less a a \<and>
   \<not> (priority_branch a b \<and> priority_branch b a) \<and> \<not> priority_branch a a \<and>
   \<not> (lexicographic_branch a b \<and> lexicographic_branch b a) \<and>
   \<not> lexicographic_branch a a"
proof -
  have "\<not> (priority_branch x y \<and> priority_branch y x)" for x y
    by (auto simp add: priority_branch_key dest: less_asym)
  moreover have "\<not> (lexicographic_branch x y \<and> lexicographic_branch y x)" for x y
    by (auto simp add: lexicographic_branch_key dest: less_asym)
  ultimately show ?thesis
    by (auto simp add: operator_less_def using_priorities_commute [of b a])
qed

text \<open>
  C2. The mode is chosen per comparison and symmetrically in the operands: the
  priority branch is taken exactly when at least one operand has a positive
  \<open>priority_sum\<close>. The choice does not look at \<open>eval\<close>; with both sums 0 the result
  is the one of the lexicographic branch, whatever the two \<open>eval\<close> values are.
\<close>

theorem mode_selection:
  "(using_priorities a b \<longleftrightarrow> using_priorities b a) \<and>
   (using_priorities a b \<longleftrightarrow> 0 < unat (priority_sum a) \<or> 0 < unat (priority_sum b)) \<and>
   using_priorities (a\<lparr>eval := e\<rparr>) (b\<lparr>eval := f\<rparr>) = using_priorities a b \<and>
   operator_less a b =
     (if 0 < unat (priority_sum a) \<or> 0 < unat (priority_sum b)
      then priority_branch a b else lexicographic_branch a b) \<and>
   (priority_sum a = 0 \<and> priority_sum b = 0 \<longrightarrow>
      operator_less (a\<lparr>eval := e\<rparr>) (b\<lparr>eval := f\<rparr>)
        = lexicographic_branch (a\<lparr>eval := e\<rparr>) (b\<lparr>eval := f\<rparr>))"
  by (auto simp add: operator_less_def using_priorities_def word_less_nat_alt)

text \<open>
  The mode selection on two default values with different costs.
\<close>

theorem mode_selection_witness:
  "priority_sum (SolutionIndicators_default 1) = 0 \<and>
   priority_sum (SolutionIndicators_default 2) = 0 \<and>
   operator_less
     (SolutionIndicators_default 1\<lparr>eval := \<lparr>cost = 7, duration = 1, distance = 1\<rparr>\<rparr>)
     (SolutionIndicators_default 2\<lparr>eval := \<lparr>cost = 9, duration = 1, distance = 1\<rparr>\<rparr>)
   = lexicographic_branch
     (SolutionIndicators_default 1\<lparr>eval := \<lparr>cost = 7, duration = 1, distance = 1\<rparr>\<rparr>)
     (SolutionIndicators_default 2\<lparr>eval := \<lparr>cost = 9, duration = 1, distance = 1\<rparr>\<rparr>)"
  using mode_selection [of "SolutionIndicators_default 1" "SolutionIndicators_default 2"
      "\<lparr>cost = 7, duration = 1, distance = 1\<rparr>" "\<lparr>cost = 9, duration = 1, distance = 1\<rparr>"]
  by (simp add: SolutionIndicators_default_def)

text \<open>
  C3. The scale is 360000. In priority mode the comparator is the cascade of the
  specification: the profits \<open>priority_sum * 360000 - cost\<close>, taken in signed 64-bit
  arithmetic, decide when they differ (the higher one wins); otherwise more assigned
  jobs, then fewer used vehicles, then lower duration, then lower distance, then
  lower hash. With \<open>priority_sum = 5\<close>, \<open>cost = 100000\<close> against \<open>priority_sum = 4\<close>,
  \<open>cost = 50000\<close> the profits are 1700000 and 1390000 and the first operand is
  better.
\<close>

theorem priority_mode_order:
  "uint PRIORITY_SCALE = 360000 \<and>
   (0 < unat (priority_sum a) \<or> 0 < unat (priority_sum b) \<longrightarrow>
      operator_less a b = spec_priority_better a b) \<and>
   (priority_sum x = 5 \<and> cost (eval x) = 100000 \<and>
    priority_sum y = 4 \<and> cost (eval y) = 50000 \<longrightarrow>
      spec_profit x = 1700000 \<and> spec_profit y = 1390000 \<and> operator_less x y)"
proof (intro conjI impI)
  show "uint PRIORITY_SCALE = 360000"
    by (simp add: PRIORITY_SCALE_value)
next
  assume "0 < unat (priority_sum a) \<or> 0 < unat (priority_sum b)"
  then have "using_priorities a b"
    by (simp add: using_priorities_def word_less_nat_alt)
  then show "operator_less a b = spec_priority_better a b"
    by (simp add: operator_less_def priority_branch_spec)
next
  assume h: "priority_sum x = 5 \<and> cost (eval x) = 100000 \<and>
    priority_sum y = 4 \<and> cost (eval y) = 50000"
  then show px: "spec_profit x = 1700000" and py: "spec_profit y = 1390000"
    by (simp_all add: spec_profit_exact)
  from h have "using_priorities x y"
    by (simp add: using_priorities_def)
  then show "operator_less x y"
    by (simp add: operator_less_def priority_branch_spec spec_priority_better_def px py)
qed

text \<open>
  The profit example on two complete values.
\<close>

theorem priority_mode_order_witness:
  "(0 < unat (5 :: 32 word) \<or> 0 < unat (4 :: 32 word)) \<and>
   spec_priority_better
     \<lparr>priority_sum = 5, assigned = 3, eval = \<lparr>cost = 100000, duration = 9, distance = 9\<rparr>,
      used_vehicles = 2, routes_hash = 8\<rparr>
     \<lparr>priority_sum = 4, assigned = 7, eval = \<lparr>cost = 50000, duration = 1, distance = 1\<rparr>,
      used_vehicles = 1, routes_hash = 6\<rparr> \<and>
   spec_profit
     \<lparr>priority_sum = 5, assigned = 3, eval = \<lparr>cost = 100000, duration = 9, distance = 9\<rparr>,
      used_vehicles = 2, routes_hash = 8\<rparr> = 1700000 \<and>
   spec_profit
     \<lparr>priority_sum = 4, assigned = 7, eval = \<lparr>cost = 50000, duration = 1, distance = 1\<rparr>,
      used_vehicles = 1, routes_hash = 6\<rparr> = 1390000 \<and>
   operator_less
     \<lparr>priority_sum = 5, assigned = 3, eval = \<lparr>cost = 100000, duration = 9, distance = 9\<rparr>,
      used_vehicles = 2, routes_hash = 8\<rparr>
     \<lparr>priority_sum = 4, assigned = 7, eval = \<lparr>cost = 50000, duration = 1, distance = 1\<rparr>,
      used_vehicles = 1, routes_hash = 6\<rparr>"
  using priority_mode_order
    [of "\<lparr>priority_sum = 5, assigned = 3,
          eval = \<lparr>cost = 100000, duration = 9, distance = 9\<rparr>,
          used_vehicles = 2, routes_hash = 8\<rparr>"
        "\<lparr>priority_sum = 4, assigned = 7,
          eval = \<lparr>cost = 50000, duration = 1, distance = 1\<rparr>,
          used_vehicles = 1, routes_hash = 6\<rparr>"
        "\<lparr>priority_sum = 5, assigned = 3,
          eval = \<lparr>cost = 100000, duration = 9, distance = 9\<rparr>,
          used_vehicles = 2, routes_hash = 8\<rparr>"
        "\<lparr>priority_sum = 4, assigned = 7,
          eval = \<lparr>cost = 50000, duration = 1, distance = 1\<rparr>,
          used_vehicles = 1, routes_hash = 6\<rparr>"]
  by auto

text \<open>
  C4. With both \<open>priority_sum\<close> equal to 0 the comparator is the lexicographic
  cascade of the specification: more assigned jobs, then lower cost, then fewer used
  vehicles, then lower duration, then lower distance, then lower hash. Ten assigned
  jobs at cost 500 with two vehicles beat nine assigned jobs at cost 100; with ten
  assigned jobs on both sides, cost 480 beats cost 500.
\<close>

theorem lexicographic_mode_order:
  "(priority_sum a = 0 \<and> priority_sum b = 0 \<longrightarrow>
      operator_less a b = spec_lexicographic_better a b) \<and>
   (priority_sum x = 0 \<and> priority_sum y = 0 \<and>
    assigned x = 10 \<and> cost (eval x) = 500 \<and> used_vehicles x = 2 \<and>
    assigned y = 9 \<and> cost (eval y) = 100 \<longrightarrow> operator_less x y) \<and>
   (priority_sum u = 0 \<and> priority_sum v = 0 \<and>
    assigned u = 10 \<and> cost (eval u) = 500 \<and>
    assigned v = 10 \<and> cost (eval v) = 480 \<longrightarrow> operator_less v u)"
  by (simp add: operator_less_def using_priorities_def lexicographic_branch_spec
      spec_lexicographic_better_def)

text \<open>
  The two lexicographic examples on complete values.
\<close>

theorem lexicographic_mode_order_witness:
  "spec_lexicographic_better
     \<lparr>priority_sum = 0, assigned = 10, eval = \<lparr>cost = 500, duration = 9, distance = 9\<rparr>,
      used_vehicles = 2, routes_hash = 8\<rparr>
     \<lparr>priority_sum = 0, assigned = 9, eval = \<lparr>cost = 100, duration = 1, distance = 1\<rparr>,
      used_vehicles = 1, routes_hash = 6\<rparr> \<and>
   operator_less
     \<lparr>priority_sum = 0, assigned = 10, eval = \<lparr>cost = 500, duration = 9, distance = 9\<rparr>,
      used_vehicles = 2, routes_hash = 8\<rparr>
     \<lparr>priority_sum = 0, assigned = 9, eval = \<lparr>cost = 100, duration = 1, distance = 1\<rparr>,
      used_vehicles = 1, routes_hash = 6\<rparr> \<and>
   operator_less
     \<lparr>priority_sum = 0, assigned = 10, eval = \<lparr>cost = 480, duration = 5, distance = 5\<rparr>,
      used_vehicles = 3, routes_hash = 4\<rparr>
     \<lparr>priority_sum = 0, assigned = 10, eval = \<lparr>cost = 500, duration = 5, distance = 5\<rparr>,
      used_vehicles = 3, routes_hash = 4\<rparr>"
  using lexicographic_mode_order
    [of "\<lparr>priority_sum = 0, assigned = 10,
          eval = \<lparr>cost = 500, duration = 9, distance = 9\<rparr>,
          used_vehicles = 2, routes_hash = 8\<rparr>"
        "\<lparr>priority_sum = 0, assigned = 9,
          eval = \<lparr>cost = 100, duration = 1, distance = 1\<rparr>,
          used_vehicles = 1, routes_hash = 6\<rparr>"
        "\<lparr>priority_sum = 0, assigned = 10,
          eval = \<lparr>cost = 500, duration = 9, distance = 9\<rparr>,
          used_vehicles = 2, routes_hash = 8\<rparr>"
        "\<lparr>priority_sum = 0, assigned = 9,
          eval = \<lparr>cost = 100, duration = 1, distance = 1\<rparr>,
          used_vehicles = 1, routes_hash = 6\<rparr>"
        "\<lparr>priority_sum = 0, assigned = 10,
          eval = \<lparr>cost = 500, duration = 5, distance = 5\<rparr>,
          used_vehicles = 3, routes_hash = 4\<rparr>"
        "\<lparr>priority_sum = 0, assigned = 10,
          eval = \<lparr>cost = 480, duration = 5, distance = 5\<rparr>,
          used_vehicles = 3, routes_hash = 4\<rparr>"]
  by auto

text \<open>
  C5. Two values that agree on every field, the hash included, are equivalent:
  neither is better than the other. Two values that agree on every field except
  the hash, the first having the lower hash, are ordered: the first is better, in
  the comparator and in each of its two branches.
\<close>

theorem final_tie:
  "(priority_sum a = priority_sum b \<and> assigned a = assigned b \<and> eval a = eval b \<and>
    used_vehicles a = used_vehicles b \<and> routes_hash a = routes_hash b \<longrightarrow>
      \<not> operator_less a b \<and> \<not> operator_less b a) \<and>
   (priority_sum x = priority_sum y \<and> assigned x = assigned y \<and> eval x = eval y \<and>
    used_vehicles x = used_vehicles y \<and> routes_hash x < routes_hash y \<longrightarrow>
      operator_less x y \<and> priority_branch x y \<and> lexicographic_branch x y)"
proof (intro conjI impI)
  assume h: "priority_sum x = priority_sum y \<and> assigned x = assigned y \<and>
    eval x = eval y \<and> used_vehicles x = used_vehicles y \<and> routes_hash x < routes_hash y"
  then have "profit x = profit y"
    by (simp add: profit_def)
  with h show p: "priority_branch x y"
    by (simp add: priority_branch_def tuple_less_cmp_u tuple_less_cmp_s word_less_def)
  from h show l: "lexicographic_branch x y"
    by (simp add: lexicographic_branch_def tuple_less_cmp_u tuple_less_cmp_s word_less_def)
  from p l show "operator_less x y"
    by (simp add: operator_less_def)
next
  assume h: "priority_sum a = priority_sum b \<and> assigned a = assigned b \<and>
    eval a = eval b \<and> used_vehicles a = used_vehicles b \<and> routes_hash a = routes_hash b"
  then have k: "priority_key a = priority_key b" "lexicographic_key a = lexicographic_key b"
    by (simp_all add: priority_key_def lexicographic_key_def profit_def)
  then show "\<not> operator_less a b" "\<not> operator_less b a"
    by (simp_all add: operator_less_def priority_branch_key lexicographic_branch_key)
qed

text \<open>
  A full tie, and a tie up to the hash in priority mode and in lexicographic mode.
\<close>

theorem final_tie_witness:
  "\<not> operator_less
     \<lparr>priority_sum = 3, assigned = 4, eval = \<lparr>cost = 50, duration = 6, distance = 7\<rparr>,
      used_vehicles = 2, routes_hash = 11\<rparr>
     \<lparr>priority_sum = 3, assigned = 4, eval = \<lparr>cost = 50, duration = 6, distance = 7\<rparr>,
      used_vehicles = 2, routes_hash = 11\<rparr> \<and>
   operator_less
     \<lparr>priority_sum = 3, assigned = 4, eval = \<lparr>cost = 50, duration = 6, distance = 7\<rparr>,
      used_vehicles = 2, routes_hash = 11\<rparr>
     \<lparr>priority_sum = 3, assigned = 4, eval = \<lparr>cost = 50, duration = 6, distance = 7\<rparr>,
      used_vehicles = 2, routes_hash = 12\<rparr> \<and>
   operator_less
     \<lparr>priority_sum = 0, assigned = 4, eval = \<lparr>cost = 50, duration = 6, distance = 7\<rparr>,
      used_vehicles = 2, routes_hash = 11\<rparr>
     \<lparr>priority_sum = 0, assigned = 4, eval = \<lparr>cost = 50, duration = 6, distance = 7\<rparr>,
      used_vehicles = 2, routes_hash = 12\<rparr>"
  using
    final_tie
      [of "\<lparr>priority_sum = 3, assigned = 4,
            eval = \<lparr>cost = 50, duration = 6, distance = 7\<rparr>,
            used_vehicles = 2, routes_hash = 11\<rparr>"
          "\<lparr>priority_sum = 3, assigned = 4,
            eval = \<lparr>cost = 50, duration = 6, distance = 7\<rparr>,
            used_vehicles = 2, routes_hash = 11\<rparr>"
          "\<lparr>priority_sum = 3, assigned = 4,
            eval = \<lparr>cost = 50, duration = 6, distance = 7\<rparr>,
            used_vehicles = 2, routes_hash = 11\<rparr>"
          "\<lparr>priority_sum = 3, assigned = 4,
            eval = \<lparr>cost = 50, duration = 6, distance = 7\<rparr>,
            used_vehicles = 2, routes_hash = 12\<rparr>"]
    final_tie
      [of "\<lparr>priority_sum = 3, assigned = 4,
            eval = \<lparr>cost = 50, duration = 6, distance = 7\<rparr>,
            used_vehicles = 2, routes_hash = 11\<rparr>"
          "\<lparr>priority_sum = 3, assigned = 4,
            eval = \<lparr>cost = 50, duration = 6, distance = 7\<rparr>,
            used_vehicles = 2, routes_hash = 11\<rparr>"
          "\<lparr>priority_sum = 0, assigned = 4,
            eval = \<lparr>cost = 50, duration = 6, distance = 7\<rparr>,
            used_vehicles = 2, routes_hash = 11\<rparr>"
          "\<lparr>priority_sum = 0, assigned = 4,
            eval = \<lparr>cost = 50, duration = 6, distance = 7\<rparr>,
            used_vehicles = 2, routes_hash = 12\<rparr>"]
  by simp

text \<open>
  C6. Within one priority regime the comparator is transitive: when \<open>a\<close>, \<open>b\<close> and
  \<open>c\<close> all have a positive \<open>priority_sum\<close>, or all have \<open>priority_sum = 0\<close>, then
  \<open>a\<close> better than \<open>b\<close> and \<open>b\<close> better than \<open>c\<close> give \<open>a\<close> better than \<open>c\<close>.
\<close>

theorem same_regime_transitive:
  assumes "(0 < priority_sum a \<and> 0 < priority_sum b \<and> 0 < priority_sum c) \<or>
     (priority_sum a = 0 \<and> priority_sum b = 0 \<and> priority_sum c = 0)"
    and "operator_less a b" and "operator_less b c"
  shows "operator_less a c"
  using assms
  by (auto simp add: operator_less_def using_priorities_def
      priority_branch_key lexicographic_branch_key intro: less_trans)

text \<open>
  A chain of three values with positive priority sums.
\<close>

theorem same_regime_transitive_witness:
  "operator_less
     \<lparr>priority_sum = 9, assigned = 4, eval = \<lparr>cost = 50, duration = 6, distance = 7\<rparr>,
      used_vehicles = 2, routes_hash = 11\<rparr>
     \<lparr>priority_sum = 3, assigned = 4, eval = \<lparr>cost = 50, duration = 6, distance = 7\<rparr>,
      used_vehicles = 2, routes_hash = 11\<rparr> \<and>
   operator_less
     \<lparr>priority_sum = 3, assigned = 4, eval = \<lparr>cost = 50, duration = 6, distance = 7\<rparr>,
      used_vehicles = 2, routes_hash = 11\<rparr>
     \<lparr>priority_sum = 3, assigned = 4, eval = \<lparr>cost = 50, duration = 8, distance = 7\<rparr>,
      used_vehicles = 2, routes_hash = 5\<rparr> \<and>
   operator_less
     \<lparr>priority_sum = 9, assigned = 4, eval = \<lparr>cost = 50, duration = 6, distance = 7\<rparr>,
      used_vehicles = 2, routes_hash = 11\<rparr>
     \<lparr>priority_sum = 3, assigned = 4, eval = \<lparr>cost = 50, duration = 8, distance = 7\<rparr>,
      used_vehicles = 2, routes_hash = 5\<rparr>"
proof -
  let ?a = "\<lparr>priority_sum = 9, assigned = 4,
      eval = \<lparr>cost = 50, duration = 6, distance = 7\<rparr>,
      used_vehicles = 2, routes_hash = 11\<rparr>"
  let ?b = "\<lparr>priority_sum = 3, assigned = 4,
      eval = \<lparr>cost = 50, duration = 6, distance = 7\<rparr>,
      used_vehicles = 2, routes_hash = 11\<rparr>"
  let ?c = "\<lparr>priority_sum = 3, assigned = 4,
      eval = \<lparr>cost = 50, duration = 8, distance = 7\<rparr>,
      used_vehicles = 2, routes_hash = 5\<rparr>"
  have regime: "(0 < priority_sum ?a \<and> 0 < priority_sum ?b \<and> 0 < priority_sum ?c) \<or>
     (priority_sum ?a = 0 \<and> priority_sum ?b = 0 \<and> priority_sum ?c = 0)"
    by simp
  have ab: "operator_less ?a ?b"
    by (simp add: operator_less_eval)
  have bc: "operator_less ?b ?c"
    by (simp add: operator_less_eval)
  from ab bc same_regime_transitive [OF regime ab bc] show ?thesis
    by simp
qed

text \<open>
  C7. What the constructor stores, for every set of collaborators, instance and
  list of routes: \<open>priority_sum\<close> is the sum of the routes' priority sums;
  \<open>assigned\<close> is the sum of the routes' job counts; \<open>eval\<close> is the combination of the
  routes' evaluations, the route in slot \<open>i\<close> evaluated with vehicle rank \<open>i\<close> (so each
  component is the sum of that component over the routes); \<open>used_vehicles\<close> is the
  number of non-empty routes; \<open>routes_hash\<close> is the hash of the sorted sizes of all
  routes. The two counters are 32-bit: they hold the count itself as long as the
  count is below \<open>2 ^ 32\<close>.
\<close>

theorem aggregator_postconditions:
  "priority_sum (SolutionIndicators_ctor C input sol) =
     (\<Sum>r\<leftarrow>sol. priority_sum_for_route C input (route C r)) \<and>
   assigned (SolutionIndicators_ctor C input sol) =
     of_nat (\<Sum>r\<leftarrow>sol. length (route C r)) \<and>
   ((\<Sum>r\<leftarrow>sol. length (route C r)) < 2 ^ 32 \<longrightarrow>
      unat (assigned (SolutionIndicators_ctor C input sol)) =
        (\<Sum>r\<leftarrow>sol. length (route C r))) \<and>
   eval (SolutionIndicators_ctor C input sol) =
     foldl Eval_add Eval_zero
       (map (\<lambda>(i, r). route_eval_for_vehicle C input (of_nat i) (route C r))
         (enumerate 0 sol)) \<and>
   cost (eval (SolutionIndicators_ctor C input sol)) =
     (\<Sum>(i, r)\<leftarrow>enumerate 0 sol.
        cost (route_eval_for_vehicle C input (of_nat i) (route C r))) \<and>
   duration (eval (SolutionIndicators_ctor C input sol)) =
     (\<Sum>(i, r)\<leftarrow>enumerate 0 sol.
        duration (route_eval_for_vehicle C input (of_nat i) (route C r))) \<and>
   distance (eval (SolutionIndicators_ctor C input sol)) =
     (\<Sum>(i, r)\<leftarrow>enumerate 0 sol.
        distance (route_eval_for_vehicle C input (of_nat i) (route C r))) \<and>
   used_vehicles (SolutionIndicators_ctor C input sol) =
     of_nat (length (filter (\<lambda>r. \<not> empty_Route C r) sol)) \<and>
   (length sol < 2 ^ 32 \<longrightarrow>
      unat (used_vehicles (SolutionIndicators_ctor C input sol)) =
        length (filter (\<lambda>r. \<not> empty_Route C r) sol)) \<and>
   routes_hash (SolutionIndicators_ctor C input sol) =
     get_vector_hash C (sort (map (\<lambda>r. of_nat (size_Route C r)) sol))"
proof -
  let ?s = "SolutionIndicators_ctor C input sol"
  let ?acc = "foldl (loop_body C input) (SolutionIndicators_default 0, 0) sol"
  let ?evals = "map (\<lambda>(i, r). route_eval_for_vehicle C input (of_nat i) (route C r))
         (enumerate 0 sol)"
  have s: "?s = (fst ?acc)\<lparr>routes_hash :=
      get_vector_hash C (sort (map (\<lambda>r. of_nat (size_Route C r)) sol))\<rparr>"
    by (simp add: SolutionIndicators_ctor_def split_beta Let_def)
  have p: "priority_sum ?s = (\<Sum>r\<leftarrow>sol. priority_sum_for_route C input (route C r))"
    by (simp add: s loop_priority_sum SolutionIndicators_default_def)
  have a: "assigned ?s = of_nat (\<Sum>r\<leftarrow>sol. length (route C r))"
    by (simp add: s loop_assigned SolutionIndicators_default_def)
  have e: "eval ?s = foldl Eval_add Eval_zero ?evals"
    by (simp add: s loop_eval SolutionIndicators_default_def)
  have u: "used_vehicles ?s = of_nat (length (filter (\<lambda>r. \<not> empty_Route C r) sol))"
    by (simp add: s loop_used_vehicles SolutionIndicators_default_def)
  have h: "routes_hash ?s =
      get_vector_hash C (sort (map (\<lambda>r. of_nat (size_Route C r)) sol))"
    by (simp add: s)
  have a': "unat (assigned ?s) = (\<Sum>r\<leftarrow>sol. length (route C r))"
    if "(\<Sum>r\<leftarrow>sol. length (route C r)) < 2 ^ 32"
    using that by (simp add: a unat_of_nat)
  have u': "unat (used_vehicles ?s) = length (filter (\<lambda>r. \<not> empty_Route C r) sol)"
    if "length sol < 2 ^ 32"
  proof -
    have "length (filter (\<lambda>r. \<not> empty_Route C r) sol) \<le> length sol"
      by (rule length_filter_le)
    with that have "length (filter (\<lambda>r. \<not> empty_Route C r) sol) < 2 ^ 32"
      by (rule le_less_trans [rotated])
    then show ?thesis
      by (simp add: u unat_of_nat)
  qed
  have ec: "cost (eval ?s) = sum_list (map cost ?evals)"
    and ed: "duration (eval ?s) = sum_list (map duration ?evals)"
    and ei: "distance (eval ?s) = sum_list (map distance ?evals)"
    by (simp_all add: e foldl_Eval_add_cost foldl_Eval_add_duration
        foldl_Eval_add_distance Eval_zero_def)
  have m: "map f ?evals =
      map (\<lambda>(i, r). f (route_eval_for_vehicle C input (of_nat i) (route C r)))
        (enumerate 0 sol)" for f :: "Eval \<Rightarrow> 64 word"
    by (simp add: split_def comp_def)
  from p a a' e ec ed ei u u' h show ?thesis
    unfolding m by blast
qed

text \<open>
  The constructor on three routes, the middle one empty.
\<close>

theorem aggregator_postconditions_witness:
  "unat (assigned (SolutionIndicators_ctor example_collaborators of_nat [[1, 2], [], [3]])) = 3 \<and>
   unat (used_vehicles
     (SolutionIndicators_ctor example_collaborators of_nat [[1, 2], [], [3]])) = 2 \<and>
   priority_sum (SolutionIndicators_ctor example_collaborators of_nat [[1, 2], [], [3]]) = 6 \<and>
   eval (SolutionIndicators_ctor example_collaborators of_nat [[1, 2], [], [3]]) =
     \<lparr>cost = 33, duration = 3, distance = 9\<rparr>"
  using aggregator_postconditions [of example_collaborators of_nat "[[1, 2], [], [3]]"]
  by (simp add: example_collaborators_def enumerate_eq_zip upt_rec [of 0] Eval_add_def Eval_zero_def)

text \<open>
  C8. The fingerprint does not depend on the order of the vehicle slots: two lists
  of routes that are permutations of one another get the same \<open>routes_hash\<close>. More
  generally, the same holds for two lists of routes with the same multiset of
  sizes. The reason is that the vector that is hashed is the ascending sort of the
  sizes.
\<close>

theorem fingerprint_permutation_invariant:
  "(mset sol' = mset sol \<longrightarrow>
      routes_hash (SolutionIndicators_ctor C input sol') =
      routes_hash (SolutionIndicators_ctor C input sol)) \<and>
   (mset (map (size_Route C) sol') = mset (map (size_Route C) sol) \<longrightarrow>
      routes_hash (SolutionIndicators_ctor C input sol') =
      routes_hash (SolutionIndicators_ctor C input sol)) \<and>
   (\<exists>sizes. sorted sizes \<and>
      mset sizes = mset (map (\<lambda>r. of_nat (size_Route C r)) sol) \<and>
      routes_hash (SolutionIndicators_ctor C input sol) = get_vector_hash C sizes)"
proof -
  have h: "routes_hash (SolutionIndicators_ctor C input xs) =
      get_vector_hash C (sort (map (\<lambda>r. of_nat (size_Route C r)) xs))" for xs
    by (simp add: SolutionIndicators_ctor_def split_beta Let_def)
  have "sort (map (\<lambda>r. of_nat (size_Route C r) :: 32 word) sol') =
      sort (map (\<lambda>r. of_nat (size_Route C r)) sol)"
    if "mset (map (size_Route C) sol') = mset (map (size_Route C) sol)"
  proof (rule sort_mset_cong)
    have "mset (map (\<lambda>r. of_nat (size_Route C r) :: 32 word) xs) =
        image_mset of_nat (mset (map (size_Route C) xs))" for xs
      by (simp add: multiset.map_comp comp_def)
    with that show "mset (map (\<lambda>r. of_nat (size_Route C r) :: 32 word) sol') =
        mset (map (\<lambda>r. of_nat (size_Route C r)) sol)"
      by simp
  qed
  moreover have "mset (map (size_Route C) sol') = mset (map (size_Route C) sol)"
    if "mset sol' = mset sol"
    using that by (simp only: mset_map)
  moreover have "\<exists>sizes. sorted sizes \<and>
      mset sizes = mset (map (\<lambda>r. of_nat (size_Route C r)) sol) \<and>
      routes_hash (SolutionIndicators_ctor C input sol) = get_vector_hash C sizes"
    by (rule exI [of _ "sort (map (\<lambda>r. of_nat (size_Route C r)) sol)"]) (simp add: h)
  ultimately show ?thesis
    by (simp add: h)
qed

text \<open>
  Three routes in two different slot orders.
\<close>

theorem fingerprint_permutation_invariant_witness:
  "mset [[], [3], [1, 2 :: nat]] = mset [[1, 2], [], [3]] \<and>
   routes_hash (SolutionIndicators_ctor example_collaborators of_nat [[], [3], [1, 2]]) =
   routes_hash (SolutionIndicators_ctor example_collaborators of_nat [[1, 2], [], [3]])"
proof -
  have m: "mset [[], [3], [1, 2 :: nat]] = mset [[1, 2], [], [3]]"
    by (simp add: add_mset_commute)
  with fingerprint_permutation_invariant
    [of "[[], [3], [1, 2]]" "[[1, 2], [], [3]]" example_collaborators of_nat]
  show ?thesis
    by blast
qed

text \<open>
  C9. In priority mode the cost is only looked at through the profit, so two
  values can be equivalent without being equal: there are \<open>a\<close> and \<open>b\<close> that differ by
  one priority point and by 360000 units of cost, hence have equal profits, agree on
  all other fields, and neither is better than the other.
\<close>

theorem priority_mode_ignores_cost:
  "\<exists>a b. priority_sum a \<noteq> priority_sum b \<and> cost (eval a) \<noteq> cost (eval b) \<and>
     uint (priority_sum b) - uint (priority_sum a) = 1 \<and>
     sint (cost (eval b)) - sint (cost (eval a)) = 360000 \<and>
     spec_profit a = spec_profit b \<and>
     assigned a = assigned b \<and> used_vehicles a = used_vehicles b \<and>
     duration (eval a) = duration (eval b) \<and> distance (eval a) = distance (eval b) \<and>
     routes_hash a = routes_hash b \<and> using_priorities a b \<and>
     \<not> operator_less a b \<and> \<not> operator_less b a"
proof (intro exI conjI)
  let ?a = "\<lparr>priority_sum = 1, assigned = 4,
      eval = \<lparr>cost = 100, duration = 6, distance = 7\<rparr>,
      used_vehicles = 2, routes_hash = 11\<rparr>"
  let ?b = "\<lparr>priority_sum = 2, assigned = 4,
      eval = \<lparr>cost = 360100, duration = 6, distance = 7\<rparr>,
      used_vehicles = 2, routes_hash = 11\<rparr>"
  show "spec_profit ?a = spec_profit ?b"
    by (simp add: spec_profit_exact)
  show "\<not> operator_less ?a ?b" and "\<not> operator_less ?b ?a"
    by (simp_all add: operator_less_eval)
qed (simp_all add: using_priorities_def)

text \<open>
  C10. A default-constructed value has \<open>priority_sum\<close>, \<open>assigned\<close> and
  \<open>used_vehicles\<close> equal to 0, and \<open>routes_hash\<close> is whatever the storage held. The
  comparison of two default-constructed values is decided by these two storage
  contents alone, and both outcomes occur.
\<close>

theorem default_constructed:
  "priority_sum (SolutionIndicators_default h) = 0 \<and>
   assigned (SolutionIndicators_default h) = 0 \<and>
   used_vehicles (SolutionIndicators_default h) = 0 \<and>
   routes_hash (SolutionIndicators_default h) = h \<and>
   operator_less (SolutionIndicators_default h1) (SolutionIndicators_default h2)
     = (h1 < h2) \<and>
   operator_less (SolutionIndicators_default 0) (SolutionIndicators_default 1) \<and>
   \<not> operator_less (SolutionIndicators_default 1) (SolutionIndicators_default 0)"
  by (simp add: SolutionIndicators_default_def operator_less_eval Eval_zero_def)

end
